theory Spec2Isabelle
  imports Complex_Main
begin

section \<open>Student introduction evaluator: the scoring engine and its endpoint\<close>

text \<open>
  A shallow embedding of \<^verbatim>\<open>scorer.py\<close> (the rubric scorers and their aggregator) and of
  the \<^verbatim>\<open>/evaluate\<close> handler of \<^verbatim>\<open>app.py\<close>.

  Conventions of the model:
  \<^item> a transcript is a \<open>string\<close>: a list of 8-bit characters, read as the code points
    0..255 (Latin-1) of a Python \<^verbatim>\<open>str\<close>; \<^verbatim>\<open>str.lower\<close>, \<^verbatim>\<open>str.split\<close> and
    \<^verbatim>\<open>str.strip\<close> are modelled on that range;
  \<^item> Python's \<^verbatim>\<open>int\<close> is \<open>int\<close>; a Python \<^verbatim>\<open>float\<close> is the exact rational \<open>rat\<close>
    it approximates, so the rounding error of binary floating point is not modelled;
  \<^item> a result dictionary is a record with the keys as fields; a key that only some
    branches set is an \<open>option\<close> field;
  \<^item> a raised exception is the \<open>Inl\<close> of a sum type;
  \<^item> an f-string is the list of its pieces, a formatted number staying a number.
\<close>

subsection \<open>Lexical utilities\<close>

text \<open>The characters \<^verbatim>\<open>str.isspace\<close> accepts among the code points 0..255.\<close>

definition whitespace :: "char list" where
  "whitespace = [CHR 0x09, CHR 0x0A, CHR 0x0B, CHR 0x0C, CHR 0x0D, CHR 0x1C, CHR 0x1D,
                 CHR 0x1E, CHR 0x1F, CHR 0x20, CHR 0x85, CHR 0xA0]"

definition is_space :: "char \<Rightarrow> bool" where
  "is_space c = (c \<in> set whitespace)"

text \<open>
  \<^verbatim>\<open>str.lower\<close> on the code points 0..255: the letters A..Z and the accented capitals
  0xC0..0xDE (the multiplication sign 0xD7 apart) move up by 32, all else stays.
\<close>

definition lower_char :: "char \<Rightarrow> char" where
  "lower_char c =
     (let n = (of_char c :: nat)
      in if (65 \<le> n \<and> n \<le> 90) \<or> (192 \<le> n \<and> n \<le> 222 \<and> n \<noteq> 215)
         then char_of (n + 32) else c)"

definition lower :: "string \<Rightarrow> string" where
  "lower s = map lower_char s"

text \<open>\<^verbatim>\<open>s.strip()\<close>: leading and trailing whitespace removed.\<close>

definition strip :: "string \<Rightarrow> string" where
  "strip s = rev (dropWhile is_space (rev (dropWhile is_space s)))"

text \<open>
  \<^verbatim>\<open>s.split()\<close>: the maximal runs of non-whitespace characters, in order. \<open>cur\<close> is the
  run being read, reversed.
\<close>

fun split_ws :: "string \<Rightarrow> string \<Rightarrow> string list" where
  "split_ws cur [] = (if cur = [] then [] else [rev cur])"
| "split_ws cur (c # cs) =
     (if is_space c
      then (if cur = [] then split_ws [] cs else rev cur # split_ws [] cs)
      else split_ws (c # cur) cs)"

definition split :: "string \<Rightarrow> string list" where
  "split s = split_ws [] s"

text \<open>
  \<^verbatim>\<open>s.split(sep)\<close> for a one-character separator: the fragments between separators,
  empty ones included; always at least one fragment.
\<close>

fun split_on :: "char \<Rightarrow> string \<Rightarrow> string list" where
  "split_on sep [] = [[]]"
| "split_on sep (c # cs) =
     (if c = sep then [] # split_on sep cs
      else (case split_on sep cs of
              [] \<Rightarrow> [[c]]
            | w # ws \<Rightarrow> (c # w) # ws))"

text \<open>\<^verbatim>\<open>sub in s\<close>: \<open>sub\<close> occurs in \<open>s\<close> as a contiguous substring.\<close>

fun starts_with :: "string \<Rightarrow> string \<Rightarrow> bool" where
  "starts_with s [] = True"
| "starts_with [] (p # ps) = False"
| "starts_with (c # cs) (p # ps) = (c = p \<and> starts_with cs ps)"

fun contains :: "string \<Rightarrow> string \<Rightarrow> bool" where
  "contains [] sub = (sub = [])"
| "contains (c # cs) sub = (starts_with (c # cs) sub \<or> contains cs sub)"

text \<open>\<^verbatim>\<open>any(p in s for p in phrases)\<close>.\<close>

definition any_in :: "string list \<Rightarrow> string \<Rightarrow> bool" where
  "any_in phrases s = list_ex (\<lambda>p. contains s p) phrases"

text \<open>
  \<^verbatim>\<open>s.count(sub)\<close>: the number of non-overlapping occurrences of \<open>sub\<close> in \<open>s\<close>, found
  from the left; after a match the scan resumes behind it (\<open>skip\<close> characters are still
  to be passed over). For the empty \<open>sub\<close> Python counts every position.
\<close>

fun count_from :: "nat \<Rightarrow> string \<Rightarrow> string \<Rightarrow> nat" where
  "count_from skip [] sub = 0"
| "count_from skip (c # cs) sub =
     (if 0 < skip then count_from (skip - 1) cs sub
      else if starts_with (c # cs) sub then 1 + count_from (length sub - 1) cs sub
      else count_from 0 cs sub)"

definition count :: "string \<Rightarrow> string \<Rightarrow> nat" where
  "count s sub = (if sub = [] then length s + 1 else count_from 0 s sub)"

text \<open>
  \<^verbatim>\<open>round(x, n)\<close> on the exact value: to \<open>n\<close> decimals, a tie going to the even
  neighbour.
\<close>

definition py_round :: "rat \<Rightarrow> nat \<Rightarrow> rat" where
  "py_round x n =
     (let y = x * 10 ^ n; f = \<lfloor>y\<rfloor>; d = y - of_int f
      in of_int (if d < 1 / 2 then f
                 else if 1 / 2 < d then f + 1
                 else if even f then f else f + 1) / 10 ^ n)"

text \<open>The pieces of an f-string: literal text, and the values formatted into it.\<close>

datatype piece =
    Text string
  | Fixed nat rat   \<comment> \<open>\<^verbatim>\<open>{x:.nf}\<close>: \<open>x\<close> printed with \<open>n\<close> decimals\<close>
  | Count nat       \<comment> \<open>\<^verbatim>\<open>{n}\<close>: a length printed in decimal\<close>

text \<open>\<^verbatim>\<open>sep.join(xs)\<close>.\<close>

fun join :: "string \<Rightarrow> string list \<Rightarrow> string" where
  "join sep [] = []"
| "join sep [x] = x"
| "join sep (x # y # ys) = x @ sep @ join sep (y # ys)"

subsection \<open>Result dictionaries\<close>

text \<open>Every scorer's result has a \<^verbatim>\<open>score\<close> and a \<^verbatim>\<open>feedback\<close>.\<close>

record scored =
  score :: int

record result = scored +
  feedback :: "piece list"

record salutation_result = result +
  level :: string

record keywords_result = result +
  found :: "string list"
  missing :: "string list"

subsection \<open>Salutation scorer\<close>

definition good_greetings :: "string list" where
  "good_greetings = [''good morning'', ''good afternoon'', ''good evening'', ''good day'',
                     ''hello everyone'']"

definition evaluate_salutation :: "string \<Rightarrow> salutation_result" where
  "evaluate_salutation transcript =
     (let text_lower = lower transcript
      in if contains text_lower ''excited to introduce'' \<or> contains text_lower ''feeling great''
         then \<lparr>score = 5, feedback = [Text ''Excellent greeting with enthusiasm''],
               level = ''Excellent''\<rparr>
         else if any_in good_greetings text_lower
         then \<lparr>score = 4, feedback = [Text ''Good formal greeting''], level = ''Good''\<rparr>
         else if contains text_lower ''hi'' \<or> contains text_lower ''hello''
         then \<lparr>score = 2, feedback = [Text ''Basic greeting found''], level = ''Normal''\<rparr>
         else \<lparr>score = 0, feedback = [Text ''No greeting detected''], level = ''None''\<rparr>)"

subsection \<open>Keyword coverage scorer\<close>

text \<open>The two dictionaries, in insertion order (the order Python iterates them in).\<close>

definition must_have :: "(string \<times> string list) list" where
  "must_have =
     [(''name'', [''name'', ''myself'', ''i am'', ''i'' @ [CHR 0x27] @ ''m'']),
      (''age'', [''years old'', ''age'', ''year old'']),
      (''school/class'', [''class'', ''school'', ''studying'', ''student'']),
      (''family'', [''family'', ''father'', ''mother'', ''parents'', ''brother'', ''sister'']),
      (''hobbies'', [''hobby'', ''hobbies'', ''enjoy'', ''like'', ''love'', ''play'', ''playing''])]"

definition good_to_have :: "(string \<times> string list) list" where
  "good_to_have =
     [(''about family'', [''kind'', ''loving'', ''caring'', ''supportive'']),
      (''origin'', [''from'', ''live in'', ''come from'']),
      (''ambition/goal'', [''ambition'', ''goal'', ''dream'', ''want to'', ''aspire'']),
      (''fun fact'', [''fun fact'', ''interesting'', ''unique'', ''special'']),
      (''strengths'', [''good at'', ''strength'', ''achievement'', ''proud''])]"

text \<open>
  The first loop, over the state \<open>(score, found_keywords, missing_keywords)\<close>: a matched
  category adds 4 points and is appended to the found list, an unmatched one is appended
  to the missing list.
\<close>

fun must_have_loop ::
  "string \<Rightarrow> (string \<times> string list) list \<Rightarrow> int \<times> string list \<times> string list
     \<Rightarrow> int \<times> string list \<times> string list" where
  "must_have_loop text_lower [] st = st"
| "must_have_loop text_lower ((category, keywords) # rest) (sc, found_keywords, missing_keywords) =
     (if any_in keywords text_lower
      then must_have_loop text_lower rest (sc + 4, found_keywords @ [category], missing_keywords)
      else must_have_loop text_lower rest (sc, found_keywords, missing_keywords @ [category]))"

text \<open>The second loop, over \<open>(good_count, found_keywords)\<close>.\<close>

fun good_to_have_loop ::
  "string \<Rightarrow> (string \<times> string list) list \<Rightarrow> int \<times> string list \<Rightarrow> int \<times> string list" where
  "good_to_have_loop text_lower [] st = st"
| "good_to_have_loop text_lower ((category, keywords) # rest) (good_count, found_keywords) =
     (if any_in keywords text_lower
      then good_to_have_loop text_lower rest (good_count + 1, found_keywords @ [category])
      else good_to_have_loop text_lower rest (good_count, found_keywords))"

definition evaluate_keyword_presence :: "string \<Rightarrow> keywords_result" where
  "evaluate_keyword_presence transcript =
     (let text_lower = lower transcript;
          (sc, found1, missing_keywords) = must_have_loop text_lower must_have (0, [], []);
          (good_count, found_keywords) = good_to_have_loop text_lower good_to_have (0, found1);
          sc = sc + min (good_count * 2) 10
      in \<lparr>score = sc,
          feedback = [Text ''Found '', Count (length found_keywords),
                      Text '' keywords. Missing: '',
                      Text (if missing_keywords \<noteq> [] then join '', '' missing_keywords
                            else ''None'')],
          found = found_keywords,
          missing = missing_keywords\<rparr>)"

subsection \<open>Flow scorer\<close>

text \<open>
  \<^verbatim>\<open>[s.strip() for s in transcript.split('.') if s.strip()]\<close>: the non-blank fragments
  between periods, trimmed.
\<close>

definition sentences_of :: "string \<Rightarrow> string list" where
  "sentences_of transcript =
     map strip (filter (\<lambda>s. strip s \<noteq> []) (split_on (CHR ''.'') transcript))"

definition flow_greetings :: "string list" where
  "flow_greetings = [''hello'', ''hi'', ''good morning'', ''good afternoon'', ''good evening'']"

definition name_words :: "string list" where
  "name_words = [''name'', ''myself'', ''i am'', ''i'' @ [CHR 0x27] @ ''m'']"

definition closing_words :: "string list" where
  "closing_words = [''thank'', ''thanks'', ''listening'']"

definition has_salutation_first :: "string list \<Rightarrow> bool" where
  "has_salutation_first sentences =
     (if 2 \<le> length sentences then any_in flow_greetings (lower (sentences ! 0)) else False)"

text \<open>
  The loop \<^verbatim>\<open>for i in range(min(3, len(sentences)))\<close>, leaving at the first sentence
  that holds a name word; \<open>is\<close> are the indices still to visit.
\<close>

fun name_loop :: "string list \<Rightarrow> nat list \<Rightarrow> bool" where
  "name_loop sentences [] = False"
| "name_loop sentences (i # is) =
     (if any_in name_words (lower (sentences ! i)) then True else name_loop sentences is)"

definition has_name_early :: "string list \<Rightarrow> bool" where
  "has_name_early sentences = name_loop sentences [0 ..< min 3 (length sentences)]"

definition has_closing :: "string list \<Rightarrow> bool" where
  "has_closing sentences =
     (if sentences \<noteq> [] then any_in closing_words (lower (last sentences)) else False)"

definition evaluate_flow :: "string \<Rightarrow> result" where
  "evaluate_flow transcript =
     (let sentences = sentences_of transcript;
          a = has_salutation_first sentences;
          b = has_name_early sentences;
          c = has_closing sentences
      in if a \<and> b \<and> c
         then \<lparr>score = 5, feedback = [Text ''Excellent flow with proper order'']\<rparr>
         else if a \<and> b
         then \<lparr>score = 4, feedback = [Text ''Good flow, missing proper closing'']\<rparr>
         else if b
         then \<lparr>score = 2, feedback = [Text ''Partial flow detected'']\<rparr>
         else \<lparr>score = 0, feedback = [Text ''Flow order not followed'']\<rparr>)"

subsection \<open>Speech rate scorer\<close>

datatype py_error = ZeroDivisionError | TypeError | ValueError | AttributeError

record speech_result = result +
  wpm :: rat

text \<open>
  \<^verbatim>\<open>word_count / duration_sec\<close> raises \<^verbatim>\<open>ZeroDivisionError\<close> for a zero duration; no
  other statement of the function can fail.
\<close>

definition evaluate_speech_rate :: "string \<Rightarrow> int \<Rightarrow> py_error + speech_result" where
  "evaluate_speech_rate transcript duration_sec =
     (let words = split transcript;
          word_count = length words
      in if duration_sec = 0 then Inl ZeroDivisionError
         else
           (let w = (of_nat word_count / of_int duration_sec) * 60
            in Inr (if 111 \<le> w \<and> w \<le> 140
                    then \<lparr>score = 10,
                          feedback = [Text ''Ideal speech rate: '', Fixed 1 w, Text '' WPM''],
                          wpm = py_round w 1\<rparr>
                    else if (141 \<le> w \<and> w \<le> 160) \<or> (81 \<le> w \<and> w \<le> 110)
                    then \<lparr>score = 6,
                          feedback = [Text ''Acceptable speech rate: '', Fixed 1 w, Text '' WPM''],
                          wpm = py_round w 1\<rparr>
                    else if 160 < w
                    then \<lparr>score = 2,
                          feedback = [Text ''Too fast: '', Fixed 1 w, Text '' WPM''],
                          wpm = py_round w 1\<rparr>
                    else \<lparr>score = 2,
                          feedback = [Text ''Too slow: '', Fixed 1 w, Text '' WPM''],
                          wpm = py_round w 1\<rparr>)))"

subsection \<open>Grammar scorer\<close>

text \<open>
  In the source the line \<^verbatim>\<open>matches = []\<close> is indented two columns deeper than the
  statements around it; the model reads it as the statement of the function body it
  stands for.
\<close>

record grammar_result = result +
  errors :: nat
  errors_per_100 :: rat

definition evaluate_grammar :: "string \<Rightarrow> grammar_result" where
  "evaluate_grammar transcript =
     (let matches = ([] :: string list);
          word_count = length (split transcript);
          per_100 = (if 0 < word_count
                     then (of_nat (length matches) / of_nat word_count) * 100 else 0);
          grammar_score = max 0 (1 - min (per_100 / 10) 1);
          sc = (if 9 / 10 \<le> grammar_score then 10
                else if 7 / 10 \<le> grammar_score then 8
                else if 5 / 10 \<le> grammar_score then 6
                else if 3 / 10 \<le> grammar_score then 4
                else 2)
      in \<lparr>score = sc,
          feedback = [Count (length matches), Text '' grammar errors found ('',
                      Fixed 1 per_100, Text '' per 100 words)''],
          errors = length matches,
          errors_per_100 = py_round per_100 2\<rparr>)"

subsection \<open>Vocabulary scorer\<close>

text \<open>
  The early return for a transcript without words sets neither \<^verbatim>\<open>unique_words\<close> nor
  \<^verbatim>\<open>total_words\<close>: both keys are optional fields.
\<close>

record vocabulary_result = result +
  ttr :: rat
  unique_words :: "nat option"
  total_words :: "nat option"

definition evaluate_vocabulary :: "string \<Rightarrow> vocabulary_result" where
  "evaluate_vocabulary transcript =
     (let words = split (lower transcript);
          unique = set words;
          total = length words
      in if total = 0
         then \<lparr>score = 0, feedback = [Text ''No words found''], ttr = 0,
               unique_words = None, total_words = None\<rparr>
         else
           (let r = of_nat (card unique) / of_nat total;
                sc = (if 9 / 10 \<le> r then 10
                      else if 7 / 10 \<le> r then 8
                      else if 5 / 10 \<le> r then 6
                      else if 3 / 10 \<le> r then 4
                      else 2)
            in \<lparr>score = sc,
                feedback = [Text ''TTR: '', Fixed 3 r, Text '' ('', Count (card unique),
                            Text ''/'', Count total, Text '' unique words)''],
                ttr = py_round r 3,
                unique_words = Some (card unique),
                total_words = Some total\<rparr>))"

subsection \<open>Clarity (filler) scorer\<close>

definition FILLER_WORDS :: "string list" where
  "FILLER_WORDS = [''um'', ''uh'', ''like'', ''you know'', ''so'', ''actually'', ''basically'',
                   ''right'', ''i mean'', ''well'', ''kinda'', ''sort of'', ''okay'', ''hmm'',
                   ''ah'']"

record clarity_result = result +
  filler_count :: nat
  filler_rate :: rat

definition evaluate_clarity :: "string \<Rightarrow> clarity_result" where
  "evaluate_clarity transcript =
     (let text_lower = lower transcript;
          word_count = length (split transcript);
          n = (\<Sum>filler\<leftarrow>FILLER_WORDS. count text_lower filler);
          rate = (if 0 < word_count then (of_nat n / of_nat word_count) * 100 else 0);
          sc = (if rate \<le> 3 then 15
                else if rate \<le> 6 then 12
                else if rate \<le> 9 then 9
                else if rate \<le> 12 then 6
                else 3)
      in \<lparr>score = sc,
          feedback = [Count n, Text '' filler words found ('', Fixed 1 rate, Text ''% rate)''],
          filler_count = n,
          filler_rate = py_round rate 2\<rparr>)"

subsection \<open>Engagement (sentiment) scorer\<close>

text \<open>
  The sentiment analyzer is the \<^verbatim>\<open>vaderSentiment\<close> library, not code of this repository:
  its \<^verbatim>\<open>polarity_scores\<close> is a parameter of the model, a function from the transcript
  to the four scores it returns.
\<close>

record polarity =
  neg :: rat
  neu :: rat
  pos :: rat
  compound :: rat

record engagement_result = result +
  positive_score :: rat
  sentiment :: polarity

definition evaluate_engagement :: "(string \<Rightarrow> polarity) \<Rightarrow> string \<Rightarrow> engagement_result" where
  "evaluate_engagement polarity_scores transcript =
     (let scores = polarity_scores transcript;
          p = pos scores;
          sc = (if 9 / 10 \<le> p then 15
                else if 7 / 10 \<le> p then 12
                else if 5 / 10 \<le> p then 9
                else if 3 / 10 \<le> p then 6
                else 3)
      in \<lparr>score = sc,
          feedback = [Text ''Positive sentiment: '', Fixed 3 p],
          positive_score = py_round p 3,
          sentiment = scores\<rparr>)"

subsection \<open>Aggregator\<close>

text \<open>A category of the report: its score, its \<^verbatim>\<open>max\<close>, and the results it is made of.\<close>

record category = scored +
  max_points :: int  \<comment> \<open>the key \<^verbatim>\<open>max\<close>\<close>

record content_category = category +
  salutation :: salutation_result
  keywords_res :: keywords_result  \<comment> \<open>the key \<^verbatim>\<open>keywords\<close>\<close>
  flow :: result

record language_category = category +
  grammar :: grammar_result
  vocabulary :: vocabulary_result

record 'd detail_category = category +
  details :: 'd

record categories =
  content_structure :: content_category
  speech_rate :: "speech_result detail_category"
  language_grammar :: language_category
  clarity :: "clarity_result detail_category"
  engagement :: "engagement_result detail_category"

record report =
  overall_score :: int
  max_score :: int
  percentage :: rat
  categories :: categories
  word_count :: nat
  duration_sec :: int

text \<open>
  The scorers are called in a fixed order and the speech-rate scorer may raise, so the
  model returns, next to the report or the exception, the calls made up to that point.
\<close>

datatype scorer_call =
    Call_salutation string
  | Call_keyword_presence string
  | Call_flow string
  | Call_speech_rate string int
  | Call_grammar string
  | Call_vocabulary string
  | Call_clarity string
  | Call_engagement string

definition evaluate_introduction ::
  "(string \<Rightarrow> polarity) \<Rightarrow> string \<Rightarrow> int \<Rightarrow> scorer_call list \<times> (py_error + report)" where
  "evaluate_introduction polarity_scores transcript dur =
     (let sal = evaluate_salutation transcript;
          kw = evaluate_keyword_presence transcript;
          fl = evaluate_flow transcript;
          content_score = score sal + score kw + score fl;
          calls = [Call_salutation transcript, Call_keyword_presence transcript,
                   Call_flow transcript, Call_speech_rate transcript dur]
      in case evaluate_speech_rate transcript dur of
           Inl e \<Rightarrow> (calls, Inl e)
         | Inr speech \<Rightarrow>
             (let gr = evaluate_grammar transcript;
                  voc = evaluate_vocabulary transcript;
                  language_score = score gr + score voc;
                  cl = evaluate_clarity transcript;
                  en = evaluate_engagement polarity_scores transcript;
                  total_score = content_score + score speech + language_score + score cl
                                + score en
              in (calls @ [Call_grammar transcript, Call_vocabulary transcript,
                           Call_clarity transcript, Call_engagement transcript],
                  Inr \<lparr>overall_score = total_score,
                       max_score = 100,
                       percentage = py_round ((of_int total_score / 100) * 100) 2,
                       categories =
                         \<lparr>content_structure =
                            \<lparr>score = content_score, max_points = 40, salutation = sal,
                             keywords_res = kw, flow = fl\<rparr>,
                          speech_rate =
                            \<lparr>score = score speech, max_points = 10, details = speech\<rparr>,
                          language_grammar =
                            \<lparr>score = language_score, max_points = 20, grammar = gr,
                             vocabulary = voc\<rparr>,
                          clarity = \<lparr>score = score cl, max_points = 15, details = cl\<rparr>,
                          engagement = \<lparr>score = score en, max_points = 15, details = en\<rparr>\<rparr>,
                       word_count = length (split transcript),
                       duration_sec = dur\<rparr>)))"

subsection \<open>The endpoint\<close>

text \<open>
  The value \<^verbatim>\<open>request.get_json()\<close> hands to the handler: a dictionary from keys to JSON
  values, or anything else (no body, a list, a number), on which \<^verbatim>\<open>data.get\<close> fails.
  Of a list or an object held in a field only the kind matters here.
\<close>

datatype json = JNull | JBool bool | JInt int | JFloat rat | JStr string | JArr | JObj

datatype request_data = Not_a_dict | Dict "string \<rightharpoonup> json"

text \<open>
  Python's \<^verbatim>\<open>int(v)\<close>: an integer is itself, a boolean 0 or 1, a float is truncated
  towards zero, a string is parsed, and \<^verbatim>\<open>None\<close>, a list or a dictionary raise
  \<^verbatim>\<open>TypeError\<close>. The parser of decimal literals is a parameter: \<open>None\<close> where
  \<^verbatim>\<open>int\<close> raises \<^verbatim>\<open>ValueError\<close>.
\<close>

definition py_int :: "(string \<Rightarrow> int option) \<Rightarrow> json \<Rightarrow> py_error + int" where
  "py_int parse v =
     (case v of
        JInt n \<Rightarrow> Inr n
      | JBool b \<Rightarrow> Inr (if b then 1 else 0)
      | JFloat r \<Rightarrow> Inr (if 0 \<le> r then \<lfloor>r\<rfloor> else \<lceil>r\<rceil>)
      | JStr s \<Rightarrow> (case parse s of None \<Rightarrow> Inl ValueError | Some n \<Rightarrow> Inr n)
      | JNull \<Rightarrow> Inl TypeError
      | JArr \<Rightarrow> Inl TypeError
      | JObj \<Rightarrow> Inl TypeError)"

datatype response_body =
    Error_message string     \<comment> \<open>\<^verbatim>\<open>{'error': <text>}\<close> with a fixed text\<close>
  | Error_raised py_error    \<comment> \<open>\<^verbatim>\<open>{'error': str(e)}\<close> for the exception caught\<close>
  | Results report

record response =
  status :: nat
  body :: response_body

text \<open>
  The handler: the duration is converted before the transcript is looked at, every
  exception ends in a 500 response, and a blank transcript in a 400 response. The first
  component lists the scorer calls the request caused.
\<close>

definition evaluate ::
  "(string \<Rightarrow> int option) \<Rightarrow> (string \<Rightarrow> polarity) \<Rightarrow> request_data
     \<Rightarrow> scorer_call list \<times> response" where
  "evaluate parse polarity_scores data =
     (case data of
        Not_a_dict \<Rightarrow> ([], \<lparr>status = 500, body = Error_raised AttributeError\<rparr>)
      | Dict d \<Rightarrow>
          (let transcript = (case d ''transcript'' of None \<Rightarrow> JStr [] | Some v \<Rightarrow> v)
           in case py_int parse (case d ''duration'' of None \<Rightarrow> JInt 52 | Some v \<Rightarrow> v) of
                Inl e \<Rightarrow> ([], \<lparr>status = 500, body = Error_raised e\<rparr>)
              | Inr duration \<Rightarrow>
                  (case transcript of
                     JStr t \<Rightarrow>
                       if strip t = []
                       then ([], \<lparr>status = 400,
                                  body = Error_message ''Transcript cannot be empty''\<rparr>)
                       else (case evaluate_introduction polarity_scores t duration of
                               (calls, Inl e) \<Rightarrow>
                                 (calls, \<lparr>status = 500, body = Error_raised e\<rparr>)
                             | (calls, Inr results) \<Rightarrow>
                                 (calls, \<lparr>status = 200, body = Results results\<rparr>))
                   | _ \<Rightarrow> ([], \<lparr>status = 500, body = Error_raised AttributeError\<rparr>))))"

subsection \<open>The specification's wording, and inputs for the scenarios\<close>





text \<open>The transcript of the specification's scenario.\<close>

definition scenario_transcript :: string where
  "scenario_transcript =
     ''Hi, myself John. I am from Delhi. I enjoy playing football. Thank you for listening.''"

text \<open>
  Instances of the two parameters, for concrete requests: a parser that accepts no string
  (no request below carries a string duration) and an analyzer that finds every transcript
  neutral.
\<close>

definition no_int_literal :: "string \<Rightarrow> int option" where
  "no_int_literal s = None"

definition neutral_scores :: "string \<Rightarrow> polarity" where
  "neutral_scores t = \<lparr>neg = 0, neu = 1, pos = 0, compound = 0\<rparr>"

text \<open>A transcript of 59 words.\<close>

definition fifty_nine_words :: string where
  "fifty_nine_words = concat (replicate 59 ''word '')"

section \<open>Properties\<close>

subsection \<open>Lexical utilities\<close>






subsection \<open>The keyword loops\<close>

lemma must_have_loop_eq:
  "must_have_loop text cats (sc, f, m) =
     (sc + 4 * int (length (filter (\<lambda>(c, k). any_in k text) cats)),
      f @ map fst (filter (\<lambda>(c, k). any_in k text) cats),
      m @ map fst (filter (\<lambda>(c, k). \<not> any_in k text) cats))"
  by (induction cats arbitrary: sc f m) auto

lemma good_to_have_loop_eq:
  "good_to_have_loop text cats (n, f) =
     (n + int (length (filter (\<lambda>(c, k). any_in k text) cats)),
      f @ map fst (filter (\<lambda>(c, k). any_in k text) cats))"
  by (induction cats arbitrary: n f) auto

lemma found_eq:
  "found (evaluate_keyword_presence t) =
     map fst (filter (\<lambda>(c, k). any_in k (lower t)) must_have)
     @ map fst (filter (\<lambda>(c, k). any_in k (lower t)) good_to_have)"
  by (simp add: evaluate_keyword_presence_def Let_def must_have_loop_eq good_to_have_loop_eq)

lemma missing_eq:
  "missing (evaluate_keyword_presence t) =
     map fst (filter (\<lambda>(c, k). \<not> any_in k (lower t)) must_have)"
  by (simp add: evaluate_keyword_presence_def Let_def must_have_loop_eq good_to_have_loop_eq)



lemma set_filter_split:
  "set (map fst (filter P xs)) \<union> set (map fst (filter (\<lambda>x. \<not> P x) xs)) = set (map fst xs)"
  by auto

lemma distinct_filter_disjoint:
  "distinct (map fst xs) \<Longrightarrow>
   set (map fst (filter P xs)) \<inter> set (map fst (filter (\<lambda>x. \<not> P x) xs)) = {}"
  by (induction xs) (auto simp: rev_image_eqI)

lemma required_names:
  "set (map fst must_have) = {''name'', ''age'', ''school/class'', ''family'', ''hobbies''}"
  by (simp add: must_have_def)

lemma optional_not_required:
  "filter (\<lambda>c. c \<in> set (map fst must_have)) (map fst (filter P good_to_have)) = []"
proof -
  have "\<forall>c \<in> set (map fst good_to_have). c \<notin> set (map fst must_have)"
    by (simp add: good_to_have_def must_have_def)
  then have "\<forall>c \<in> set (map fst (filter P good_to_have)). c \<notin> set (map fst must_have)"
    by auto
  then show ?thesis by (simp add: filter_empty_conv)
qed

lemma required_kept:
  "filter (\<lambda>c. c \<in> set (map fst must_have)) (map fst (filter P must_have))
     = map fst (filter P must_have)"
  by (rule filter_True) auto

subsection \<open>The flow signals\<close>






subsection \<open>Score ranges and the report\<close>





lemma speech_rate_raises: "evaluate_speech_rate t 0 = Inl ZeroDivisionError"
  by (simp add: evaluate_speech_rate_def Let_def)

lemma grammar_score: "score (evaluate_grammar t) = 10"
  by (simp add: evaluate_grammar_def Let_def)







subsection \<open>Vocabulary, speech-rate bands and the handler\<close>



lemma speech_rate_bands:
  assumes "d \<noteq> 0"
  shows "\<exists>r. evaluate_speech_rate t d = Inr r \<and>
    (let w = (of_nat (length (split t)) / of_int d) * 60
     in (score r = 10) = (111 \<le> w \<and> w \<le> 140) \<and>
        (score r = 6) = ((141 \<le> w \<and> w \<le> 160) \<or> (81 \<le> w \<and> w \<le> 110)) \<and>
        (feedback r = [Text ''Too fast: '', Fixed 1 w, Text '' WPM'']) = (160 < w) \<and>
        (feedback r = [Text ''Too slow: '', Fixed 1 w, Text '' WPM''])
          = (w < 81 \<or> (110 < w \<and> w < 111) \<or> (140 < w \<and> w < 141)) \<and>
        (score r = 2) = (160 < w \<or> w < 81 \<or> (110 < w \<and> w < 111) \<or> (140 < w \<and> w < 141)))"
  using assms by (auto simp: evaluate_speech_rate_def Let_def)

lemma strip_Nil_iff: "strip t = [] \<longleftrightarrow> list_all is_space t"
proof
  assume "strip t = []"
  then have a: "\<forall>c \<in> set (dropWhile is_space t). is_space c"
    by (simp add: strip_def)
  have "dropWhile is_space t = []"
  proof (rule ccontr)
    assume n: "dropWhile is_space t \<noteq> []"
    then have "\<not> is_space (hd (dropWhile is_space t))" by (rule hd_dropWhile)
    moreover from n have "hd (dropWhile is_space t) \<in> set (dropWhile is_space t)"
      by (rule hd_in_set)
    ultimately show False using a by blast
  qed
  then have "\<forall>c \<in> set t. is_space c" by (simp only: dropWhile_eq_Nil_conv)
  then show "list_all is_space t" by (simp only: list_all_iff)
next
  assume "list_all is_space t"
  then have "\<forall>c \<in> set t. is_space c" by (simp only: list_all_iff)
  then have "dropWhile is_space t = []" by (simp only: dropWhile_eq_Nil_conv)
  then show "strip t = []" unfolding strip_def by (simp only: rev.simps dropWhile.simps)
qed




section \<open>The claims\<close>

text \<open>
  C3, as the code has it. For the scenario transcript the salutation score is 2, the
  keyword categories found are name, hobbies and origin, and all three flow signals hold
  (the first sentence holds "hi", which is in the flow scorer's greeting list), so the
  flow score is 5.
\<close>

theorem scenario_scores:
  "score (evaluate_salutation scenario_transcript) = 2 \<and>
   found (evaluate_keyword_presence scenario_transcript) = [''name'', ''hobbies'', ''origin''] \<and>
   has_salutation_first (sentences_of scenario_transcript) \<and>
   has_name_early (sentences_of scenario_transcript) \<and>
   has_closing (sentences_of scenario_transcript) \<and>
   score (evaluate_flow scenario_transcript) = 5"
  by code_simp

text \<open>
  C3 as stated fails: the flow score of the scenario transcript is not 2, and its
  salutation-first signal is true.
\<close>

theorem scenario_flow_counterexample:
  "score (evaluate_flow scenario_transcript) \<noteq> 2 \<and>
   has_salutation_first (sentences_of scenario_transcript)"
  by code_simp



text \<open>
  C9. The required categories are name, age, school/class, family and hobbies; for every
  transcript, the found list restricted to them and the missing list cover the required
  categories and share no element.
\<close>

theorem keyword_found_missing_partition:
  "set (map fst must_have) = {''name'', ''age'', ''school/class'', ''family'', ''hobbies''} \<and>
   set (filter (\<lambda>c. c \<in> set (map fst must_have)) (found (evaluate_keyword_presence t)))
     \<union> set (missing (evaluate_keyword_presence t)) = set (map fst must_have) \<and>
   set (filter (\<lambda>c. c \<in> set (map fst must_have)) (found (evaluate_keyword_presence t)))
     \<inter> set (missing (evaluate_keyword_presence t)) = {}"
proof -
  let ?P = "\<lambda>(c, k). any_in k (lower t)"
  have n: "(\<lambda>(c, k). \<not> any_in k (lower t)) = (\<lambda>x. \<not> ?P x)" by auto
  have f: "filter (\<lambda>c. c \<in> set (map fst must_have)) (found (evaluate_keyword_presence t))
             = map fst (filter ?P must_have)"
    unfolding found_eq filter_append optional_not_required required_kept by simp
  have d: "distinct (map fst must_have)" by (simp add: must_have_def)
  show ?thesis
    unfolding f missing_eq n
    using set_filter_split [of ?P must_have] distinct_filter_disjoint [OF d, of ?P] required_names
    by simp
qed











text \<open>
  C7. The code at a speech rate between two bands: 59 words in 32 seconds are 110.625
  words per minute, above the band 81..110 and below the band 111..140; the last branch
  returns 2 with "Too slow", although the rate is not below 81. The lemma
  \<open>speech_rate_bands\<close> gives the bands as the code has them.
\<close>

theorem gap_wpm_scored_too_slow:
  "length (split fifty_nine_words) = 59 \<and>
   evaluate_speech_rate fifty_nine_words 32 =
     Inr \<lparr>score = 2, feedback = [Text ''Too slow: '', Fixed 1 (885 / 8), Text '' WPM''],
          wpm = 553 / 5\<rparr>"
  by code_simp

text \<open>
  C8, as the code has it. For a request that is a dictionary whose transcript is absent,
  empty or made of whitespace only, no scorer is called; the answer is the 400 response
  "Transcript cannot be empty" when the duration is absent or \<^verbatim>\<open>int\<close> converts it, and
  the 500 response of the exception raised by \<^verbatim>\<open>int\<close> otherwise, since the duration is
  converted before the transcript is checked.
\<close>

theorem blank_transcript_rejected:
  assumes "m ''transcript'' = None \<or> (\<exists>t. m ''transcript'' = Some (JStr t) \<and> list_all is_space t)"
  shows "fst (evaluate parse ps (Dict m)) = [] \<and>
         snd (evaluate parse ps (Dict m)) =
           (case py_int parse (case m ''duration'' of None \<Rightarrow> JInt 52 | Some v \<Rightarrow> v) of
              Inr d \<Rightarrow> \<lparr>status = 400, body = Error_message ''Transcript cannot be empty''\<rparr>
            | Inl e \<Rightarrow> \<lparr>status = 500, body = Error_raised e\<rparr>)"
proof -
  from assms obtain t where
    t: "(case m ''transcript'' of None \<Rightarrow> JStr [] | Some v \<Rightarrow> v) = JStr t" and s: "strip t = []"
  proof
    assume "m ''transcript'' = None"
    then have "(case m ''transcript'' of None \<Rightarrow> JStr [] | Some v \<Rightarrow> v) = JStr []" by simp
    moreover have "strip [] = []" by (simp add: strip_def)
    ultimately show ?thesis using that by blast
  next
    assume "\<exists>t. m ''transcript'' = Some (JStr t) \<and> list_all is_space t"
    then obtain t where "m ''transcript'' = Some (JStr t)" "list_all is_space t" by blast
    then have "(case m ''transcript'' of None \<Rightarrow> JStr [] | Some v \<Rightarrow> v) = JStr t" "strip t = []"
      by (simp_all add: strip_Nil_iff)
    then show ?thesis using that by blast
  qed
  show ?thesis
    by (simp add: evaluate_def Let_def t s split: sum.splits)
qed

theorem blank_transcript_rejected_witness:
  "([''transcript'' \<mapsto> JStr ''   ''] ''transcript'' = None \<or>
    (\<exists>t. [''transcript'' \<mapsto> JStr ''   ''] ''transcript'' = Some (JStr t) \<and> list_all is_space t)) \<and>
   evaluate no_int_literal neutral_scores (Dict [''transcript'' \<mapsto> JStr ''   ''])
     = ([], \<lparr>status = 400, body = Error_message ''Transcript cannot be empty''\<rparr>)"
proof -
  have h: "[''transcript'' \<mapsto> JStr ''   ''] ''transcript'' = None \<or>
    (\<exists>t. [''transcript'' \<mapsto> JStr ''   ''] ''transcript'' = Some (JStr t) \<and> list_all is_space t)"
    by (simp add: is_space_def whitespace_def)
  have d: "py_int no_int_literal
             (case [''transcript'' \<mapsto> JStr ''   ''] ''duration'' of None \<Rightarrow> JInt 52 | Some v \<Rightarrow> v)
           = Inr 52"
    by (simp add: py_int_def)
  from blank_transcript_rejected [of "[''transcript'' \<mapsto> JStr ''   '']" no_int_literal neutral_scores, OF h] h
  show ?thesis
    unfolding d by (simp add: prod_eq_iff)
qed

text \<open>
  C8 as stated fails: for an empty transcript and the duration \<^verbatim>\<open>null\<close> the answer is
  a 500 response, not the 400 response.
\<close>

theorem blank_transcript_bad_duration_counterexample:
  "evaluate no_int_literal neutral_scores
     (Dict [''transcript'' \<mapsto> JStr '''', ''duration'' \<mapsto> JNull])
   = ([], \<lparr>status = 500, body = Error_raised TypeError\<rparr>)"
  by (simp add: evaluate_def Let_def py_int_def)




end
